theory Spec2Isabelle
  imports
    Main
    "HOL-Library.Word"
    "HOL-Library.Multiset"
    "HOL-Library.Char_ord"
    "HOL-Library.List_Lexorder"
begin

unbundle bit_operations_syntax

section \<open>distutils644: normalised archive metadata\<close>

text \<open>
  The module \<^verbatim>\<open>distutils644.py\<close> patches the archive builders of distutils so that
  ownership, permission bits, the order of directory entries and the tar dialect of a
  generated archive do not depend on the build machine. Python integers are unbounded,
  so modes are values of type \<^typ>\<open>int\<close>; the octal masks of the source are written in
  binary, three bits per octal digit.
\<close>

subsection \<open>Permission bits\<close>

text \<open>
  \<^verbatim>\<open>
  def normalize_mode(mode):
      mode &= ~0o77
      mode |= 0o644
      if mode & 0o100:
          mode |= 0o111
      return mode
  \<close>
\<close>

definition normalize_mode :: "int \<Rightarrow> int" where
  "normalize_mode mode =
     (let mode = mode AND NOT 0b000111111;
          mode = mode OR 0b110100100
      in if mode AND 0b001000000 \<noteq> 0 then mode OR 0b001001001 else mode)"

subsection \<open>Errors\<close>

text \<open>
  Exceptions are values: an operation that can raise returns \<open>pyerror + 'a\<close>, with
  \<open>Inl\<close> for the exception.
\<close>

datatype pyerror = AttributeError | IndexError | OSError | OtherError string

subsection \<open>Stat results\<close>

text \<open>
  An \<^verbatim>\<open>os.stat_result\<close> is a tuple of ten integers whose items are also attributes.
  The indices \<^verbatim>\<open>stat.ST_MODE\<close>, \<^verbatim>\<open>stat.ST_UID\<close> and \<^verbatim>\<open>stat.ST_GID\<close> are the constants
  of the standard module \<^verbatim>\<open>stat\<close>.
\<close>

record stat_result =
  st_mode :: int
  st_ino :: int
  st_dev :: int
  st_nlink :: int
  st_uid :: int
  st_gid :: int
  st_size :: int
  st_atime :: int
  st_mtime :: int
  st_ctime :: int

definition ST_MODE :: int where "ST_MODE = 0"

definition ST_UID :: int where "ST_UID = 4"

definition ST_GID :: int where "ST_GID = 5"

definition stat_tuple :: "stat_result \<Rightarrow> int list" where
  "stat_tuple st =
     [st_mode st, st_ino st, st_dev st, st_nlink st, st_uid st, st_gid st,
      st_size st, st_atime st, st_mtime st, st_ctime st]"

text \<open>Indexing a tuple: a negative index counts from the end, an index out of range raises.\<close>

definition tuple_getitem :: "'a list \<Rightarrow> int \<Rightarrow> pyerror + 'a" where
  "tuple_getitem items i =
     (if 0 \<le> i \<and> i < int (length items) then Inr (items ! nat i)
      else if - int (length items) \<le> i \<and> i < 0 then Inr (items ! nat (int (length items) + i))
      else Inl IndexError)"

definition stat_getitem :: "stat_result \<Rightarrow> int \<Rightarrow> pyerror + int" where
  "stat_getitem st n = tuple_getitem (stat_tuple st) n"

definition stat_getattr :: "stat_result \<Rightarrow> string \<Rightarrow> pyerror + int" where
  "stat_getattr st attr =
     (if attr = ''st_mode'' then Inr (st_mode st)
      else if attr = ''st_ino'' then Inr (st_ino st)
      else if attr = ''st_dev'' then Inr (st_dev st)
      else if attr = ''st_nlink'' then Inr (st_nlink st)
      else if attr = ''st_uid'' then Inr (st_uid st)
      else if attr = ''st_gid'' then Inr (st_gid st)
      else if attr = ''st_size'' then Inr (st_size st)
      else if attr = ''st_atime'' then Inr (st_atime st)
      else if attr = ''st_mtime'' then Inr (st_mtime st)
      else if attr = ''st_ctime'' then Inr (st_ctime st)
      else Inl AttributeError)"

text \<open>
  \<^verbatim>\<open>
  class StatResult644(object):
      def __init__(self, original):
          self._original = original
      @property
      def st_mode(self):
          return normalize_mode(self._original.st_mode)
      @property
      def st_uid(self):
          return 0
      @property
      def st_gid(self):
          return 0
      def __getattr__(self, attr):
          return getattr(self._original, attr)
      def __getitem__(self, n):
          if n == stat.ST_MODE:
              return self.st_mode
          elif n in {stat.ST_UID, stat.ST_GID}:
              return 0
          return self._original[n]
  \<close>
  The wrapper holds the original record. Python looks an attribute up among the
  properties of the class first and calls \<^verbatim>\<open>__getattr__\<close> only when that fails;
  \<open>StatResult644_attribute\<close> is this lookup for the attribute names of a stat record.
\<close>

datatype StatResult644 = StatResult644 (original: stat_result)

definition StatResult644_st_mode :: "StatResult644 \<Rightarrow> int" where
  "StatResult644_st_mode self = normalize_mode (st_mode (original self))"

definition StatResult644_st_uid :: "StatResult644 \<Rightarrow> int" where
  "StatResult644_st_uid self = 0"

definition StatResult644_st_gid :: "StatResult644 \<Rightarrow> int" where
  "StatResult644_st_gid self = 0"

definition StatResult644_getattr :: "StatResult644 \<Rightarrow> string \<Rightarrow> pyerror + int" where
  "StatResult644_getattr self attr = stat_getattr (original self) attr"

definition StatResult644_attribute :: "StatResult644 \<Rightarrow> string \<Rightarrow> pyerror + int" where
  "StatResult644_attribute self attr =
     (if attr = ''st_mode'' then Inr (StatResult644_st_mode self)
      else if attr = ''st_uid'' then Inr (StatResult644_st_uid self)
      else if attr = ''st_gid'' then Inr (StatResult644_st_gid self)
      else StatResult644_getattr self attr)"

definition StatResult644_getitem :: "StatResult644 \<Rightarrow> int \<Rightarrow> pyerror + int" where
  "StatResult644_getitem self n =
     (if n = ST_MODE then Inr (StatResult644_st_mode self)
      else if n \<in> {ST_UID, ST_GID} then Inr 0
      else stat_getitem (original self) n)"

text \<open>
  \<^verbatim>\<open>os_lstat\<close> and \<^verbatim>\<open>os_stat\<close> wrap what the original primitive returns; its exception
  propagates unchanged.
\<close>

definition os_lstat :: "('p \<Rightarrow> pyerror + stat_result) \<Rightarrow> 'p \<Rightarrow> pyerror + StatResult644" where
  "os_lstat orig_os_lstat path =
     (case orig_os_lstat path of Inl e \<Rightarrow> Inl e | Inr st \<Rightarrow> Inr (StatResult644 st))"

definition os_stat :: "('p \<Rightarrow> pyerror + stat_result) \<Rightarrow> 'p \<Rightarrow> pyerror + StatResult644" where
  "os_stat orig_os_stat path =
     (case orig_os_stat path of Inl e \<Rightarrow> Inl e | Inr st \<Rightarrow> Inr (StatResult644 st))"

definition example_stat :: stat_result where
  "example_stat =
     \<lparr>st_mode = 0b1000000110100000, st_ino = 77, st_dev = 2049, st_nlink = 1,
      st_uid = 1000, st_gid = 1000, st_size = 12, st_atime = 3, st_mtime = 4, st_ctime = 5\<rparr>"

subsection \<open>Zip entries written by wheel\<close>

text \<open>
  \<^verbatim>\<open>
  def _fix_last_zipinfo(zipfile, mode=None):
      zipinfo = zipfile.filelist[-1]
      if mode is None:
          mode = normalize_mode(zipinfo.external_attr >> 16)
      zipinfo.external_attr = (zipinfo.external_attr & 0xFFFF) | (mode << 16)
  def WheelFile_write(self, *args, **kwargs):
      _orig_WheelFile_write(self, *args, **kwargs)
      _fix_last_zipinfo(self)
  def WheelFile_writestr(self, *args, **kwargs):
      _orig_WheelFile_writestr(self, *args, **kwargs)
      _fix_last_zipinfo(self, mode=0o100644)
  \<close>
  The archive is its list of entries. \<^verbatim>\<open>_orig_WheelFile_write\<close> and
  \<^verbatim>\<open>_orig_WheelFile_writestr\<close> are the methods of the wheel package as they were when
  the module was imported; the wrappers take them as parameters, with the arguments of
  the call.
\<close>

record zipinfo =
  filename :: string
  external_attr :: int

record zipfile =
  filelist :: "zipinfo list"

definition fix_last_zipinfo :: "zipfile \<Rightarrow> int option \<Rightarrow> pyerror + zipfile" where
  "fix_last_zipinfo zf mode =
     (if filelist zf = [] then Inl IndexError
      else
        let zi = last (filelist zf);
            mode = (case mode of
                      None \<Rightarrow> normalize_mode (drop_bit 16 (external_attr zi))
                    | Some m \<Rightarrow> m);
            zi = zi\<lparr>external_attr := (external_attr zi AND 0xFFFF) OR push_bit 16 mode\<rparr>
        in Inr (zf\<lparr>filelist := butlast (filelist zf) @ [zi]\<rparr>))"

definition WheelFile_write ::
  "('a \<Rightarrow> zipfile \<Rightarrow> pyerror + zipfile) \<Rightarrow> 'a \<Rightarrow> zipfile \<Rightarrow> pyerror + zipfile" where
  "WheelFile_write orig_WheelFile_write args self =
     (case orig_WheelFile_write args self of
        Inl e \<Rightarrow> Inl e
      | Inr self \<Rightarrow> fix_last_zipinfo self None)"

definition WheelFile_writestr ::
  "('a \<Rightarrow> zipfile \<Rightarrow> pyerror + zipfile) \<Rightarrow> 'a \<Rightarrow> zipfile \<Rightarrow> pyerror + zipfile" where
  "WheelFile_writestr orig_WheelFile_writestr args self =
     (case orig_WheelFile_writestr args self of
        Inl e \<Rightarrow> Inl e
      | Inr self \<Rightarrow> fix_last_zipinfo self (Some 0b1000000110100100))"

text \<open>
  The two methods of the wheel package (\<^verbatim>\<open>wheel/wheelfile.py\<close>), as far as the entries
  of the archive go:
  \<^verbatim>\<open>
  def write(self, filename, arcname=None, compress_type=None):
      with open(filename, "rb") as f:
          st = os.fstat(f.fileno())
          data = f.read()
      zinfo = ZipInfo(arcname or filename, date_time=get_zipinfo_datetime(st.st_mtime))
      zinfo.external_attr = (stat.S_IMODE(st.st_mode) | stat.S_IFMT(st.st_mode)) << 16
      zinfo.compress_type = compress_type or self.compression
      self.writestr(zinfo, data, compress_type)
  def writestr(self, zinfo_or_arcname, data, compress_type=None):
      if isinstance(zinfo_or_arcname, str):
          zinfo_or_arcname = ZipInfo(zinfo_or_arcname, date_time=get_zipinfo_datetime())
          zinfo_or_arcname.compress_type = self.compression
          zinfo_or_arcname.external_attr = (0o664 | stat.S_IFREG) << 16
      ...
      ZipFile.writestr(self, zinfo_or_arcname, data, compress_type)
  \<close>
  \<^verbatim>\<open>write\<close> stores the mode of the file in a new entry and hands the entry to
  \<^verbatim>\<open>self.writestr\<close>, the method that the class holds at the time of the call; it is the
  parameter \<open>self_writestr\<close>. The file is given by its archive name and the mode that
  \<^verbatim>\<open>os.fstat\<close> reports. \<^verbatim>\<open>writestr\<close> appends the entry it is given, or a new entry for
  a name.
\<close>

definition S_IMODE :: "int \<Rightarrow> int" where
  "S_IMODE mode = mode AND 0b111111111111"

definition S_IFMT :: "int \<Rightarrow> int" where
  "S_IFMT mode = mode AND 0b1111000000000000"

definition S_IFREG :: int where
  "S_IFREG = 0b1000000000000000"

datatype zinfo_or_arcname = Arcname string | Zinfo zipinfo

definition orig_WheelFile_writestr :: "zinfo_or_arcname \<Rightarrow> zipfile \<Rightarrow> pyerror + zipfile" where
  "orig_WheelFile_writestr zinfo_or_arcname self =
     (let zinfo = (case zinfo_or_arcname of
                     Arcname name \<Rightarrow>
                       \<lparr>filename = name, external_attr = push_bit 16 (0b110110100 OR S_IFREG)\<rparr>
                   | Zinfo zinfo \<Rightarrow> zinfo)
      in Inr (self\<lparr>filelist := filelist self @ [zinfo]\<rparr>))"

definition orig_WheelFile_write ::
  "(zinfo_or_arcname \<Rightarrow> zipfile \<Rightarrow> pyerror + zipfile) \<Rightarrow>
   string \<times> int \<Rightarrow> zipfile \<Rightarrow> pyerror + zipfile" where
  "orig_WheelFile_write self_writestr file self =
     (let (arcname, file_mode) = file;
          zinfo = \<lparr>filename = arcname,
                   external_attr = push_bit 16 (S_IMODE file_mode OR S_IFMT file_mode)\<rparr>
      in self_writestr (Zinfo zinfo) self)"

subsection \<open>The table of archive formats\<close>

text \<open>
  \<^verbatim>\<open>
  def patch_format(fmt):
      func = fmt[0]
      if func is distutils.archive_util.make_tarball:
          func = make_tarball
      elif func is distutils.archive_util.make_zipfile:
          func = make_zipfile
      return (func,) + fmt[1:]
  archive_formats = distutils.archive_util.ARCHIVE_FORMATS
  archive_formats = {key: patch_format(value) for key, value in archive_formats.items()}
  distutils.archive_util.ARCHIVE_FORMATS = archive_formats
  if wheel is not None:
      if archive_wheelfile is not None:
          wheel.bdist_wheel.archive_wheelfile = archive_wheelfile
      else:
          wheel.wheelfile.WheelFile.write = WheelFile_write
          wheel.wheelfile.WheelFile.writestr = WheelFile_writestr
  \<close>
  Builders are function objects, compared by identity. The two stock builders are the
  functions bound in \<^verbatim>\<open>distutils.archive_util\<close>, which \<^verbatim>\<open>install\<close> never rebinds. Every
  call of \<^verbatim>\<open>install\<close> creates its own closures \<^verbatim>\<open>make_tarball\<close> and \<^verbatim>\<open>make_zipfile\<close>: they
  carry the number of the call. An entry of the table is the builder and the rest of
  its tuple. What the module found of the wheel package when it was imported is a
  parameter of \<^verbatim>\<open>install\<close>.
\<close>

datatype builder =
    Stock_make_tarball
  | Stock_make_zipfile
  | Make_tarball644 nat
  | Make_zipfile644 nat
  | Other_builder string

datatype wheel_func =
    Orig_archive_wheelfile
  | Archive_wheelfile644
  | Orig_WheelFile_write
  | WheelFile_write644
  | Orig_WheelFile_writestr
  | WheelFile_writestr644

datatype wheel_support = No_wheel | Has_archive_wheelfile | Has_WheelFile

record 'a distutils_state =
  ARCHIVE_FORMATS :: "(string \<times> builder \<times> 'a) list"
  archive_wheelfile_attr :: "wheel_func option"
  WheelFile_write_attr :: wheel_func
  WheelFile_writestr_attr :: wheel_func
  install_calls :: nat

definition patch_format :: "nat \<Rightarrow> builder \<times> 'a \<Rightarrow> builder \<times> 'a" where
  "patch_format k fmt =
     (let func = fst fmt;
          func = (if func = Stock_make_tarball then Make_tarball644 k
                  else if func = Stock_make_zipfile then Make_zipfile644 k
                  else func)
      in (func, snd fmt))"

definition install :: "wheel_support \<Rightarrow> 'a distutils_state \<Rightarrow> 'a distutils_state" where
  "install wheel s =
     (let k = install_calls s;
          archive_formats = ARCHIVE_FORMATS s;
          archive_formats = map (\<lambda>(key, value). (key, patch_format k value)) archive_formats;
          s = s\<lparr>ARCHIVE_FORMATS := archive_formats, install_calls := Suc k\<rparr>
      in case wheel of
           No_wheel \<Rightarrow> s
         | Has_archive_wheelfile \<Rightarrow> s\<lparr>archive_wheelfile_attr := Some Archive_wheelfile644\<rparr>
         | Has_WheelFile \<Rightarrow>
             s\<lparr>WheelFile_write_attr := WheelFile_write644,
               WheelFile_writestr_attr := WheelFile_writestr644\<rparr>)"

text \<open>
  A call \<^verbatim>\<open>self.writestr(...)\<close> or \<^verbatim>\<open>self.write(...)\<close> on a \<^verbatim>\<open>WheelFile\<close> runs the function
  that the class holds under that name: the method of the wheel package, or the wrapper
  once \<^verbatim>\<open>install\<close> has assigned it. The wrapper calls the method it captured, and that
  method looks \<^verbatim>\<open>self.writestr\<close> up in the class as it is then.
\<close>

definition writestr_method ::
  "wheel_func \<Rightarrow> zinfo_or_arcname \<Rightarrow> zipfile \<Rightarrow> pyerror + zipfile" where
  "writestr_method attr =
     (if attr = WheelFile_writestr644 then WheelFile_writestr orig_WheelFile_writestr
      else orig_WheelFile_writestr)"

definition write_method ::
  "'a distutils_state \<Rightarrow> string \<times> int \<Rightarrow> zipfile \<Rightarrow> pyerror + zipfile" where
  "write_method s =
     (let orig = orig_WheelFile_write (writestr_method (WheelFile_writestr_attr s))
      in if WheelFile_write_attr s = WheelFile_write644 then WheelFile_write orig else orig)"

text \<open>The stock table and the methods of the wheel package, before any activation.\<close>

definition example_distutils_state :: "string distutils_state" where
  "example_distutils_state =
     \<lparr>ARCHIVE_FORMATS =
        [(''gztar'', Stock_make_tarball, ''gzipped tar-file''),
         (''tar'', Stock_make_tarball, ''uncompressed tar file''),
         (''zip'', Stock_make_zipfile, ''ZIP file'')],
      archive_wheelfile_attr = None,
      WheelFile_write_attr = Orig_WheelFile_write,
      WheelFile_writestr_attr = Orig_WheelFile_writestr,
      install_calls = 0\<rparr>"

subsection \<open>Scoped replacement of module attributes\<close>

text \<open>
  \<^verbatim>\<open>
  @contextlib.contextmanager
  def monkeypatch(mod, name, func):
      orig_func = getattr(mod, name)
      try:
          setattr(mod, name, func)
          yield
      finally:
          setattr(mod, name, orig_func)
          func.original = None
  \<close>
  The interpreter state holds the attribute dictionary of every module object and of
  every function object, the table \<^verbatim>\<open>sys.modules\<close> and the number of the next module
  object to allocate. Modules and functions are objects of different kinds, kept in
  different stores; the module \<^verbatim>\<open>os\<close> is an object of its own, apart from every module
  allocated later. The operation wrapped by a \<^verbatim>\<open>with\<close> block is a function from the
  state to its result or exception and the new state. An exception raised inside the
  \<^verbatim>\<open>finally\<close> block replaces the outcome of the wrapped operation.
\<close>

datatype modref = Os_module | New_module nat

datatype tar_format = USTAR_FORMAT | GNU_FORMAT | PAX_FORMAT

record tar_class =
  class_name :: string
  format :: tar_format

datatype pyobj = PyNone | Str string | Function string | Tar_open tar_class

record interp =
  module_dict :: "modref \<Rightarrow> string \<rightharpoonup> pyobj"
  function_dict :: "string \<Rightarrow> string \<rightharpoonup> pyobj"
  sys_modules :: "string \<rightharpoonup> modref"
  next_module :: nat

type_synonym 'r action = "interp \<Rightarrow> (pyerror + 'r) \<times> interp"

definition getattr_module :: "interp \<Rightarrow> modref \<Rightarrow> string \<Rightarrow> pyerror + pyobj" where
  "getattr_module s module name =
     (case module_dict s module name of None \<Rightarrow> Inl AttributeError | Some v \<Rightarrow> Inr v)"

definition setattr_module :: "modref \<Rightarrow> string \<Rightarrow> pyobj \<Rightarrow> interp \<Rightarrow> interp" where
  "setattr_module module name v s =
     s\<lparr>module_dict := (module_dict s)(module := (module_dict s module)(name \<mapsto> v))\<rparr>"

text \<open>Only a function object takes a new attribute; \<^verbatim>\<open>None\<close>, strings and bound methods raise.\<close>

definition setattr_object :: "pyobj \<Rightarrow> string \<Rightarrow> pyobj \<Rightarrow> interp \<Rightarrow> pyerror + interp" where
  "setattr_object obj name v s =
     (case obj of
        Function f \<Rightarrow>
          Inr (s\<lparr>function_dict := (function_dict s)(f := (function_dict s f)(name \<mapsto> v))\<rparr>)
      | _ \<Rightarrow> Inl AttributeError)"

definition monkeypatch :: "modref \<Rightarrow> string \<Rightarrow> pyobj \<Rightarrow> 'r action \<Rightarrow> 'r action" where
  "monkeypatch module name func body s =
     (case getattr_module s module name of
        Inl e \<Rightarrow> (Inl e, s)
      | Inr orig_func \<Rightarrow>
          let s = setattr_module module name func s;
              (r, s) = body s;
              s = setattr_module module name orig_func s
          in case setattr_object func ''original'' PyNone s of
               Inl e \<Rightarrow> (Inl e, s)
             | Inr s \<Rightarrow> (r, s))"

subsection \<open>The normalised builders\<close>

text \<open>
  \<^verbatim>\<open>
  class TarFile644(tarfile.TarFile):
      format = tarfile.USTAR_FORMAT
  def make_tarball(*args, **kwargs):
      orig_sys_modules = sys.modules.copy()
      tarfile_mod = types.ModuleType('tarfile644')
      tarfile_mod.open = TarFile644.open
      sys.modules['tarfile'] = tarfile_mod
      try:
          with monkeypatch(os, 'listdir', os_listdir), \
            monkeypatch(os, 'lstat', os_lstat):
              return distutils.archive_util.make_tarball(*args, **kwargs)
      finally:
          sys.modules.clear()
          sys.modules.update(orig_sys_modules)
  def make_zipfile(*args, **kwargs):
      with monkeypatch(os, 'walk', os_walk), \
        monkeypatch(os, 'stat', os_stat):
          return distutils.archive_util.make_zipfile(*args, **kwargs)
  \<close>
  The stock builder of distutils, applied to its arguments, is the parameter
  \<open>orig_make_tarball\<close>. \<open>Tar_open cls\<close> is the class method \<^verbatim>\<open>open\<close> bound to the
  class \<open>cls\<close>: the writers it creates are instances of \<open>cls\<close> and have its \<open>format\<close>.
\<close>

definition TarFile644 :: tar_class where
  "TarFile644 = \<lparr>class_name = ''TarFile644'', format = USTAR_FORMAT\<rparr>"

definition ModuleType :: "string \<Rightarrow> interp \<Rightarrow> modref \<times> interp" where
  "ModuleType name s =
     (let r = New_module (next_module s)
      in (r, s\<lparr>module_dict := (module_dict s)(r := [''__name__'' \<mapsto> Str name]),
               next_module := Suc (next_module s)\<rparr>))"

definition make_tarball :: "'r action \<Rightarrow> 'r action" where
  "make_tarball orig_make_tarball s =
     (let orig_sys_modules = sys_modules s;
          (tarfile_mod, s) = ModuleType ''tarfile644'' s;
          s = setattr_module tarfile_mod ''open'' (Tar_open TarFile644) s;
          s = s\<lparr>sys_modules := (sys_modules s)(''tarfile'' \<mapsto> tarfile_mod)\<rparr>;
          (r, s) = monkeypatch Os_module ''listdir'' (Function ''os_listdir'')
                     (monkeypatch Os_module ''lstat'' (Function ''os_lstat'') orig_make_tarball) s
      in (r, s\<lparr>sys_modules := orig_sys_modules\<rparr>))"

definition make_zipfile :: "'r action \<Rightarrow> 'r action" where
  "make_zipfile orig_make_zipfile s =
     monkeypatch Os_module ''walk'' (Function ''os_walk'')
       (monkeypatch Os_module ''stat'' (Function ''os_stat'') orig_make_zipfile) s"

text \<open>
  The stock tar builder runs \<^verbatim>\<open>import tarfile\<close> when it is called and creates its writer
  with \<^verbatim>\<open>tarfile.open\<close>: it finds the module under \<^verbatim>\<open>sys.modules['tarfile']\<close>.
  \<open>tarfile_open_format s\<close> is the format of the writer that this gives in the state
  \<open>s\<close>, when the table has such a module with such an attribute.
\<close>

definition tarfile_open_format :: "interp \<Rightarrow> tar_format option" where
  "tarfile_open_format s =
     (case sys_modules s ''tarfile'' of
        None \<Rightarrow> None
      | Some m \<Rightarrow>
          (case module_dict s m ''open'' of
             Some (Tar_open cls) \<Rightarrow> Some (format cls)
           | _ \<Rightarrow> None))"

text \<open>A state with the stock primitives of \<^verbatim>\<open>os\<close> and the stock module \<^verbatim>\<open>tarfile\<close>.\<close>

definition example_interp :: interp where
  "example_interp =
     \<lparr>module_dict =
        (\<lambda>m. if m = Os_module then
                [''listdir'' \<mapsto> Function ''posix.listdir'', ''lstat'' \<mapsto> Function ''posix.lstat'',
                 ''stat'' \<mapsto> Function ''posix.stat'', ''walk'' \<mapsto> Function ''os.walk'']
              else if m = New_module 0 then
                [''open'' \<mapsto> Tar_open \<lparr>class_name = ''TarFile'', format = PAX_FORMAT\<rparr>]
              else Map.empty),
      function_dict = (\<lambda>f. Map.empty),
      sys_modules = [''os'' \<mapsto> Os_module, ''tarfile'' \<mapsto> New_module 0],
      next_module = 1\<rparr>"

subsection \<open>Ordered traversal\<close>

text \<open>
  \<^verbatim>\<open>
  _orig_os_listdir = os.listdir
  def os_listdir(path):
      return sorted(_orig_os_listdir(path))
  _orig_os_walk = os.walk
  def os_walk(*args, **kwargs):
      for dirpath, dirnames, filenames in _orig_os_walk(*args, **kwargs):
          dirnames.sort()
          filenames.sort()
          yield dirpath, dirnames, filenames
  \<close>
  Names are strings, ordered as Python orders them: character by character, a proper
  prefix first. The original \<^verbatim>\<open>os.listdir\<close> is a parameter that returns the names in
  the order of the file system, or raises.
\<close>

definition os_listdir :: "('p \<Rightarrow> pyerror + string list) \<Rightarrow> 'p \<Rightarrow> pyerror + string list" where
  "os_listdir orig_os_listdir path =
     (case orig_os_listdir path of Inl e \<Rightarrow> Inl e | Inr names \<Rightarrow> Inr (sort names))"

text \<open>
  A directory tree gives the entries of every directory in the order in which the file
  system lists them. \<^verbatim>\<open>os.walk\<close> is the generator of the standard library: it lists a
  directory, splits the names into directories and other entries, and hands the two
  lists to its consumer; in a walk from the top (the default, \<open>topdown\<close>) it then
  descends into the directories that the first list names after the consumer has
  handled it, in the order of that list, looking each name up again; in a walk from the
  bottom it descends first, in the order of the file system, and hands the lists over
  afterwards. A name that is no directory any more yields nothing. The parameter
  \<open>consumer\<close> is what the consumer of the generator does to the two lists in place
  before it resumes the generator; \<open>os_walk\<close> sorts both.
\<close>

datatype node = File | Dir "(string \<times> node) list"

definition join :: "string \<Rightarrow> string \<Rightarrow> string" where
  "join dirpath name =
     (if name \<noteq> [] \<and> hd name = CHR ''/'' then name
      else if dirpath = [] \<or> last dirpath = CHR ''/'' then dirpath @ name
      else dirpath @ ''/'' @ name)"

fun is_dir :: "node \<Rightarrow> bool" where
  "is_dir (Dir _) = True"
| "is_dir File = False"

definition scandir :: "(string \<times> node) list \<Rightarrow> string list \<times> string list" where
  "scandir entries =
     (map fst (filter (\<lambda>(name, n). is_dir n) entries),
      map fst (filter (\<lambda>(name, n). \<not> is_dir n) entries))"

type_synonym walk_item = "string \<times> string list \<times> string list"

function (sequential) walk ::
  "bool \<Rightarrow> (string list \<times> string list \<Rightarrow> string list \<times> string list) \<Rightarrow>
   string \<Rightarrow> node \<Rightarrow> walk_item list" where
  "walk topdown consumer dirpath (Dir entries) =
     (let (dirs, nondirs) = scandir entries;
          descend = (\<lambda>dirname.
             case map_of entries dirname of
               Some (Dir sub) \<Rightarrow> walk topdown consumer (join dirpath dirname) (Dir sub)
             | _ \<Rightarrow> [])
      in if topdown then
           (let (dirs', nondirs') = consumer (dirs, nondirs)
            in (dirpath, dirs', nondirs') # concat (map descend dirs'))
         else
           (let (dirs', nondirs') = consumer (dirs, nondirs)
            in concat (map descend dirs) @ [(dirpath, dirs', nondirs')]))"
| "walk topdown consumer dirpath File = []"
  by pat_completeness auto
termination
proof -
  have smaller: "size t < Suc (size_list (size_prod (\<lambda>_. 0) size) entries)"
    if "map_of entries name = Some t" for entries :: "(string \<times> node) list" and name t
    using that by (induction entries) (auto split: if_splits)
  show ?thesis
    by (relation "measure (\<lambda>(topdown, consumer, dirpath, t). size t)") (auto dest: smaller)
qed

declare walk.simps [simp del]

definition os_walk :: "bool \<Rightarrow> string \<Rightarrow> node \<Rightarrow> walk_item list" where
  "os_walk topdown dirpath tree =
     walk topdown (\<lambda>(dirnames, filenames). (sort dirnames, sort filenames)) dirpath tree"

text \<open>
  Two trees hold the same entries in different orders when, in every directory, the
  names are distinct, there are as many on both sides, and every name of the first
  names in the second an entry of the same kind that again holds the same entries.
\<close>

fun same_tree :: "node \<Rightarrow> node \<Rightarrow> bool" where
  "same_tree File File = True"
| "same_tree (Dir entries1) (Dir entries2) =
     (distinct (map fst entries1) \<and> distinct (map fst entries2) \<and>
      length entries1 = length entries2 \<and>
      list_all (\<lambda>(name, t1).
         case map_of entries2 name of Some t2 \<Rightarrow> same_tree t1 t2 | None \<Rightarrow> False) entries1)"
| "same_tree _ _ = False"

definition example_tree :: node where
  "example_tree =
     Dir [(''b.txt'', File),
          (''z'', Dir [(''y'', File), (''x'', File)]),
          (''a'', Dir [(''c.txt'', File)])]"

definition example_tree_permuted :: node where
  "example_tree_permuted =
     Dir [(''a'', Dir [(''c.txt'', File)]),
          (''z'', Dir [(''x'', File), (''y'', File)]),
          (''b.txt'', File)]"

section \<open>Properties\<close>

subsection \<open>Bits of the masks\<close>

lemma bit_0o644: "bit (420::int) n \<longleftrightarrow> n = 2 \<or> n = 5 \<or> n = 7 \<or> n = 8"
proof -
  have "(420::int) = 2 ^ 8 OR 2 ^ 7 OR 2 ^ 5 OR 2 ^ 2" by simp
  then show ?thesis by (simp only: bit_or_iff bit_exp_iff) auto
qed

lemma bit_0o111: "bit (73::int) n \<longleftrightarrow> n = 0 \<or> n = 3 \<or> n = 6"
proof -
  have "(73::int) = 2 ^ 6 OR 2 ^ 3 OR 2 ^ 0" by simp
  then show ?thesis by (simp only: bit_or_iff bit_exp_iff) auto
qed

lemma bit_0o755:
  "bit (493::int) n \<longleftrightarrow> n = 0 \<or> n = 2 \<or> n = 3 \<or> n = 5 \<or> n = 6 \<or> n = 7 \<or> n = 8"
proof -
  have "(493::int) = 2 ^ 8 OR 2 ^ 7 OR 2 ^ 6 OR 2 ^ 5 OR 2 ^ 3 OR 2 ^ 2 OR 2 ^ 0" by simp
  then show ?thesis by (simp only: bit_or_iff bit_exp_iff) auto
qed

lemma bit_not_0o77: "bit (- 64::int) n \<longleftrightarrow> 6 \<le> n"
proof -
  have "(- 64::int) = NOT (mask 6)" by (simp add: mask_eq_exp_minus_1)
  then show ?thesis by (simp only: bit_not_iff bit_mask_iff) auto
qed

lemma and_0o100: "(a::int) AND 64 \<noteq> 0 \<longleftrightarrow> bit a 6"
  using and_exp_eq_0_iff_not_bit [of a 6] by simp

text \<open>
  Every bit of the result: below bit 6 only the read bits of group and other, and their
  execute bits when the owner could execute; from bit 6 upwards the bits of the input,
  with the owner's read and write bits added.
\<close>

lemma bit_normalize_mode:
  "bit (normalize_mode m) n \<longleftrightarrow>
     (if n < 6 then n = 2 \<or> n = 5 \<or> (bit m 6 \<and> (n = 0 \<or> n = 3))
      else n = 7 \<or> n = 8 \<or> bit m n)"
  by (auto simp add: normalize_mode_def Let_def and_0o100 bit_or_iff bit_and_iff
        bit_not_0o77 bit_0o644 bit_0o111)

lemma normalize_mode_low9:
  "normalize_mode m AND 0b111111111 = (if bit m 6 then 0b111101101 else 0b110100100)"
proof -
  have m: "(511::int) = mask 9" by (simp add: mask_eq_exp_minus_1)
  have r: "n = 6 \<or> n = 7 \<or> n = 8" if "\<not> n < 6" "n < 9" for n :: nat
    using that by arith
  show ?thesis
    by (rule bit_eqI)
      (auto simp add: m bit_and_iff bit_mask_iff bit_normalize_mode bit_0o755 bit_0o644 dest: r)
qed

lemma normalize_mode_file_type: "drop_bit 12 (normalize_mode m) = drop_bit 12 m"
  by (rule bit_eqI) (simp add: bit_drop_bit_eq bit_normalize_mode)

subsection \<open>Permission canonicalisation\<close>

text \<open>
  C1, as stated: for every raw mode \<open>m\<close>, \<open>normalize_mode m\<close> is \<open>0o644\<close> or \<open>0o755\<close>.
  This fails on the mode of a regular file as \<^verbatim>\<open>os.stat\<close> reports it: \<open>0o100644\<close>
  (33188) keeps its file-type bit and is returned unchanged.
\<close>

theorem normalize_mode_range_counterexample:
  "normalize_mode 0b1000000110100100 = 0b1000000110100100 \<and>
   normalize_mode 0b1000000110100100 \<notin> {0b110100100, 0b111101101}"
  by (simp add: normalize_mode_def)

text \<open>
  C1, amended: for every raw mode \<open>m\<close>, the nine permission bits of
  \<open>normalize_mode m\<close> are \<open>0o644\<close> or \<open>0o755\<close>, and the bits of the file type, from
  bit 12 upwards, are the bits of \<open>m\<close>.
\<close>

theorem normalize_mode_permission_bits:
  "normalize_mode m AND 0b111111111 \<in> {0b110100100, 0b111101101} \<and>
   drop_bit 12 (normalize_mode m) = drop_bit 12 m"
  by (simp add: normalize_mode_low9 normalize_mode_file_type)

text \<open>
  The statement above says nothing about the setuid, setgid and sticky bits (bits 9 to
  11). The function hands them on as they are, although the module documents the
  permissions of an archive as 0644 or 0755.
\<close>

lemma normalize_mode_special_bits:
  "normalize_mode 0b100111101101 = 0b100111101101 \<and>
   normalize_mode 0b1000100111101101 = 0b1000100111101101"
  by (simp add: normalize_mode_def)

text \<open>
  C4: the group-execute bit (bit 3) and the other-execute bit (bit 0) of
  \<open>normalize_mode m\<close> are set if and only if the owner-execute bit (bit 6) of \<open>m\<close> is
  set; the owner-execute bit itself is kept, so a mode without it has no execute bit
  at all and a mode with it has all three.
\<close>

theorem normalize_mode_execute_bits:
  "(bit (normalize_mode m) 3 \<and> bit (normalize_mode m) 0 \<longleftrightarrow> bit m 6) \<and>
   (bit (normalize_mode m) 3 \<longleftrightarrow> bit m 6) \<and>
   (bit (normalize_mode m) 0 \<longleftrightarrow> bit m 6) \<and>
   (bit (normalize_mode m) 6 \<longleftrightarrow> bit m 6) \<and>
   normalize_mode m AND 0b001001001 = (if bit m 6 then 0b001001001 else 0)"
proof -
  have "normalize_mode m AND 73 = (if bit m 6 then 73 else 0)"
    by (rule bit_eqI) (auto simp add: bit_and_iff bit_normalize_mode bit_0o111)
  then show ?thesis by (simp add: bit_normalize_mode)
qed

text \<open>
  C5: \<open>normalize_mode\<close> is idempotent.
\<close>

theorem normalize_mode_idempotent:
  "normalize_mode (normalize_mode m) = normalize_mode m"
  by (rule bit_eqI) (auto simp add: bit_normalize_mode)

subsection \<open>Stat results\<close>

text \<open>
  C6: for every underlying stat result, the normalised record reports owner id 0 and
  group id 0, whatever the original \<open>st_uid\<close> and \<open>st_gid\<close> are, through the
  attributes \<open>st_uid\<close> and \<open>st_gid\<close> and through the tuple indices \<open>ST_UID\<close> and
  \<open>ST_GID\<close>.
\<close>

theorem StatResult644_owner_group_zero:
  "StatResult644_attribute (StatResult644 st) ''st_uid'' = Inr 0 \<and>
   StatResult644_attribute (StatResult644 st) ''st_gid'' = Inr 0 \<and>
   StatResult644_getitem (StatResult644 st) ST_UID = Inr 0 \<and>
   StatResult644_getitem (StatResult644 st) ST_GID = Inr 0"
  by (simp add: StatResult644_attribute_def StatResult644_getitem_def StatResult644_st_uid_def
      StatResult644_st_gid_def ST_MODE_def ST_UID_def ST_GID_def)

text \<open>
  C10: every attribute other than \<open>st_mode\<close>, \<open>st_uid\<close> and \<open>st_gid\<close>, and every
  tuple index other than \<open>ST_MODE\<close>, \<open>ST_UID\<close> and \<open>ST_GID\<close>, gives exactly what the
  original stat record gives: its value, or its exception.
\<close>

theorem StatResult644_other_fields_unchanged:
  "(attr \<notin> {''st_mode'', ''st_uid'', ''st_gid''} \<longrightarrow>
      StatResult644_attribute (StatResult644 st) attr = stat_getattr st attr) \<and>
   (n \<notin> {ST_MODE, ST_UID, ST_GID} \<longrightarrow>
      StatResult644_getitem (StatResult644 st) n = stat_getitem st n)"
  by (simp add: StatResult644_attribute_def StatResult644_getattr_def StatResult644_getitem_def)

theorem StatResult644_other_fields_unchanged_witness:
  "''st_size'' \<notin> {''st_mode'', ''st_uid'', ''st_gid''} \<and>
   StatResult644_attribute (StatResult644 example_stat) ''st_size'' = Inr 12 \<and>
   (6::int) \<notin> {ST_MODE, ST_UID, ST_GID} \<and>
   StatResult644_getitem (StatResult644 example_stat) 6 = Inr 12 \<and>
   (- 6::int) \<notin> {ST_MODE, ST_UID, ST_GID} \<and>
   StatResult644_getitem (StatResult644 example_stat) (- 6) = Inr 1000"
  using StatResult644_other_fields_unchanged
          [where attr = "''st_size''" and n = 6 and st = example_stat]
        StatResult644_other_fields_unchanged
          [where attr = "''st_size''" and n = "- 6" and st = example_stat]
  by (simp add: stat_getattr_def stat_getitem_def tuple_getitem_def stat_tuple_def
      example_stat_def ST_MODE_def ST_UID_def ST_GID_def)

subsection \<open>The zip fixup\<close>

lemma bit_0xFFFF: "bit (65535::int) n \<longleftrightarrow> n < 16"
proof -
  have "(65535::int) = mask 16" by (simp add: mask_eq_exp_minus_1)
  then show ?thesis by (simp only: bit_mask_iff) simp
qed

lemma patched_high: "drop_bit 16 ((a AND 0xFFFF) OR push_bit 16 m) = (m::int)"
  by (rule bit_eqI)
    (simp add: bit_drop_bit_eq bit_or_iff bit_and_iff bit_push_bit_iff bit_0xFFFF)

lemma patched_low: "((a AND 0xFFFF) OR push_bit 16 m) AND 0xFFFF = (a::int) AND 0xFFFF"
  by (rule bit_eqI) (auto simp add: bit_or_iff bit_and_iff bit_push_bit_iff bit_0xFFFF)

lemma push_bit_16_low: "push_bit 16 (m::int) AND 0xFFFF = 0"
  by (rule bit_eqI) (auto simp add: bit_and_iff bit_push_bit_iff bit_0xFFFF)

lemma push_bit_16_or_low: "(push_bit 16 a OR push_bit 16 b) AND 0xFFFF = (0::int)"
  by (rule bit_eqI) (auto simp add: bit_and_iff bit_or_iff bit_push_bit_iff bit_0xFFFF)

lemma drop_push_bit_16: "drop_bit 16 (push_bit 16 (m::int)) = m"
  by (rule bit_eqI) (simp add: bit_drop_bit_eq bit_push_bit_iff)

lemma fix_last_zipinfo_append:
  assumes "filelist zf = entries @ [zi]"
  shows "fix_last_zipinfo zf mode =
     Inr (zf\<lparr>filelist := entries @
       [zi\<lparr>external_attr := (external_attr zi AND 0xFFFF) OR
          push_bit 16 (case mode of
                         None \<Rightarrow> normalize_mode (drop_bit 16 (external_attr zi))
                       | Some m \<Rightarrow> m)\<rparr>]\<rparr>)"
  using assms by (simp add: fix_last_zipinfo_def Let_def)

lemma normalize_mode_0o100644: "normalize_mode 0b1000000110100100 = 0b1000000110100100"
  by (simp add: normalize_mode_def)

text \<open>
  With the method of the wheel package under \<^verbatim>\<open>writestr\<close>, the wrapper of \<^verbatim>\<open>write\<close>
  leaves the normalised mode of the file in the entry.
\<close>

lemma write_method_writestr_original:
  assumes "WheelFile_write_attr s = WheelFile_write644"
      and "WheelFile_writestr_attr s = Orig_WheelFile_writestr"
  shows "write_method s (arcname, file_mode) self =
     Inr (self\<lparr>filelist := filelist self @
       [\<lparr>filename = arcname,
         external_attr = push_bit 16 (normalize_mode (S_IMODE file_mode OR S_IFMT file_mode))\<rparr>]\<rparr>)"
proof -
  let ?zi = "\<lparr>filename = arcname,
               external_attr = push_bit 16 (S_IMODE file_mode OR S_IFMT file_mode)\<rparr>"
  have o: "orig_WheelFile_write orig_WheelFile_writestr (arcname, file_mode) self =
           Inr (self\<lparr>filelist := filelist self @ [?zi]\<rparr>)"
    by (simp add: orig_WheelFile_write_def orig_WheelFile_writestr_def)
  have f: "fix_last_zipinfo (self\<lparr>filelist := filelist self @ [?zi]\<rparr>) None =
           Inr (self\<lparr>filelist := filelist self @
             [\<lparr>filename = arcname,
               external_attr =
                 push_bit 16 (normalize_mode (S_IMODE file_mode OR S_IFMT file_mode))\<rparr>]\<rparr>)"
    by (subst fix_last_zipinfo_append [where entries = "filelist self" and zi = ?zi])
      (simp_all add: push_bit_16_low push_bit_16_or_low drop_push_bit_16)
  show ?thesis
    using assms o f by (simp add: write_method_def writestr_method_def WheelFile_write_def)
qed

text \<open>
  After \<^verbatim>\<open>install\<close> the class holds both wrappers. The wrapper of \<^verbatim>\<open>writestr\<close> forces
  \<open>0o100644\<close> on every entry, and \<^verbatim>\<open>write\<close> of the wheel package reaches it through
  \<^verbatim>\<open>self.writestr\<close>: the wrapper of \<^verbatim>\<open>write\<close> then normalises \<open>0o100644\<close>, whatever the
  mode of the file was.
\<close>

lemma writestr_method_patched:
  "writestr_method WheelFile_writestr644 (Zinfo zi) self =
     Inr (self\<lparr>filelist := filelist self @
       [zi\<lparr>external_attr :=
            (external_attr zi AND 0xFFFF) OR push_bit 16 0b1000000110100100\<rparr>]\<rparr>)"
proof -
  have "fix_last_zipinfo (self\<lparr>filelist := filelist self @ [zi]\<rparr>) (Some 0b1000000110100100) =
        Inr (self\<lparr>filelist := filelist self @
          [zi\<lparr>external_attr :=
               (external_attr zi AND 0xFFFF) OR push_bit 16 0b1000000110100100\<rparr>]\<rparr>)"
    by (subst fix_last_zipinfo_append [where entries = "filelist self" and zi = zi]) simp_all
  then show ?thesis
    by (simp add: writestr_method_def WheelFile_writestr_def orig_WheelFile_writestr_def)
qed

lemma write_method_after_install:
  "write_method (install Has_WheelFile s) (arcname, file_mode) self =
     Inr (self\<lparr>filelist := filelist self @
       [\<lparr>filename = arcname, external_attr = push_bit 16 0b1000000110100100\<rparr>]\<rparr>)"
proof -
  let ?zi = "\<lparr>filename = arcname,
               external_attr = push_bit 16 (S_IMODE file_mode OR S_IFMT file_mode)\<rparr>"
  let ?forced = "\<lparr>filename = arcname, external_attr = push_bit 16 (0b1000000110100100 :: int)\<rparr>"
  have a: "WheelFile_write_attr (install Has_WheelFile s) = WheelFile_write644"
    and b: "WheelFile_writestr_attr (install Has_WheelFile s) = WheelFile_writestr644"
    by (simp_all add: install_def Let_def)
  have "writestr_method WheelFile_writestr644 (Zinfo ?zi) self =
        Inr (self\<lparr>filelist := filelist self @ [?forced]\<rparr>)"
    by (simp add: writestr_method_patched push_bit_16_low push_bit_16_or_low)
  then have o: "orig_WheelFile_write (writestr_method WheelFile_writestr644) (arcname, file_mode) self =
        Inr (self\<lparr>filelist := filelist self @ [?forced]\<rparr>)"
    by (simp add: orig_WheelFile_write_def)
  have f: "fix_last_zipinfo (self\<lparr>filelist := filelist self @ [?forced]\<rparr>) None =
        Inr (self\<lparr>filelist := filelist self @ [?forced]\<rparr>)"
    by (subst fix_last_zipinfo_append [where entries = "filelist self" and zi = ?forced])
      (simp_all add: push_bit_16_low drop_push_bit_16 normalize_mode_0o100644)
  show ?thesis
    using o f by (simp add: write_method_def a b WheelFile_write_def)
qed

text \<open>
  C7: in the fixup mode an entry written from a file should end with \<open>normalize_mode\<close>
  of the mode the writer captured, and an entry written from a byte string with
  \<open>0o100644\<close>. The second holds. The first does not once \<^verbatim>\<open>install\<close> has run: a file of
  mode \<open>0o100750\<close>, for which \<open>normalize_mode\<close> gives \<open>0o100755\<close>, is stored with
  \<open>0o100644\<close>.
\<close>

theorem WheelFile_write_after_install:
  "write_method (install Has_WheelFile example_distutils_state)
     (''pkg/run.sh'', 0b1000000111101000) \<lparr>filelist = []\<rparr> =
     Inr \<lparr>filelist =
       [\<lparr>filename = ''pkg/run.sh'', external_attr = push_bit 16 0b1000000110100100\<rparr>]\<rparr> \<and>
   normalize_mode 0b1000000111101000 = 0b1000000111101101 \<and>
   writestr_method (WheelFile_writestr_attr (install Has_WheelFile example_distutils_state))
     (Arcname ''pkg/data.txt'') \<lparr>filelist = []\<rparr> =
     Inr \<lparr>filelist =
       [\<lparr>filename = ''pkg/data.txt'', external_attr = push_bit 16 0b1000000110100100\<rparr>]\<rparr>"
proof (intro conjI)
  show "write_method (install Has_WheelFile example_distutils_state)
     (''pkg/run.sh'', 0b1000000111101000) \<lparr>filelist = []\<rparr> =
     Inr \<lparr>filelist =
       [\<lparr>filename = ''pkg/run.sh'', external_attr = push_bit 16 0b1000000110100100\<rparr>]\<rparr>"
    using write_method_after_install
      [of example_distutils_state "''pkg/run.sh''" "0b1000000111101000" "\<lparr>filelist = []\<rparr>"]
    by simp
next
  show "normalize_mode 0b1000000111101000 = 0b1000000111101101"
    by (simp add: normalize_mode_def)
next
  have "WheelFile_writestr_attr (install Has_WheelFile example_distutils_state) =
        WheelFile_writestr644"
    by (simp add: install_def Let_def)
  then show "writestr_method
     (WheelFile_writestr_attr (install Has_WheelFile example_distutils_state))
     (Arcname ''pkg/data.txt'') \<lparr>filelist = []\<rparr> =
     Inr \<lparr>filelist =
       [\<lparr>filename = ''pkg/data.txt'', external_attr = push_bit 16 0b1000000110100100\<rparr>]\<rparr>"
    by (simp add: writestr_method_def WheelFile_writestr_def orig_WheelFile_writestr_def
        fix_last_zipinfo_def S_IFREG_def)
qed

subsection \<open>Activation\<close>

lemma patch_format_twice: "patch_format k' (patch_format k fmt) = patch_format k fmt"
  by (simp add: patch_format_def Let_def)

lemma patch_format_cases:
  "patch_format k (func, rest) =
     (if func = Stock_make_tarball then Make_tarball644 k
      else if func = Stock_make_zipfile then Make_zipfile644 k
      else func, rest)"
  by (simp add: patch_format_def Let_def)

lemma ARCHIVE_FORMATS_install:
  "ARCHIVE_FORMATS (install wheel s) =
     map (\<lambda>(key, value). (key, patch_format (install_calls s) value)) (ARCHIVE_FORMATS s)"
  by (cases wheel) (simp_all add: install_def Let_def)

text \<open>
  A further call changes nothing but the number of calls made: the entries no longer
  hold a stock builder, and the attributes of the wheel package are assigned the same
  functions again.
\<close>

lemma install_again:
  "install wheel ((install wheel s)\<lparr>install_calls := k\<rparr>) =
     (install wheel s)\<lparr>install_calls := Suc k\<rparr>"
  by (cases wheel) (simp_all add: install_def Let_def patch_format_twice case_prod_beta)

lemma install_funpow:
  "(install wheel ^^ Suc n) s = (install wheel s)\<lparr>install_calls := install_calls s + Suc n\<rparr>"
proof (induction n)
  case 0
  have "install_calls (install wheel s) = Suc (install_calls s)"
    by (cases wheel) (simp_all add: install_def Let_def)
  then show ?case by simp
next
  case (Suc n)
  have "(install wheel ^^ Suc (Suc n)) s = install wheel ((install wheel ^^ Suc n) s)"
    by simp
  also have "\<dots> = install wheel ((install wheel s)\<lparr>install_calls := install_calls s + Suc n\<rparr>)"
    by (simp only: Suc.IH)
  also have "\<dots> = (install wheel s)\<lparr>install_calls := install_calls s + Suc (Suc n)\<rparr>"
    by (simp add: install_again)
  finally show ?case .
qed

text \<open>
  C9: after any number of further calls the table of formats is the table the first
  call left. In it every entry of a stock tar or zip builder holds the normalised
  builder that the first call created, and every other entry is the entry it was.
  The attributes patched in the wheel package are those of the first call as well.
\<close>

theorem install_idempotent:
  "ARCHIVE_FORMATS ((install wheel ^^ Suc n) s) = ARCHIVE_FORMATS (install wheel s) \<and>
   ARCHIVE_FORMATS (install wheel s) =
     map (\<lambda>(key, func, rest).
            (key,
             if func = Stock_make_tarball then Make_tarball644 (install_calls s)
             else if func = Stock_make_zipfile then Make_zipfile644 (install_calls s)
             else func,
             rest))
       (ARCHIVE_FORMATS s) \<and>
   archive_wheelfile_attr ((install wheel ^^ Suc n) s) = archive_wheelfile_attr (install wheel s) \<and>
   WheelFile_write_attr ((install wheel ^^ Suc n) s) = WheelFile_write_attr (install wheel s) \<and>
   WheelFile_writestr_attr ((install wheel ^^ Suc n) s) =
     WheelFile_writestr_attr (install wheel s)"
proof -
  have "ARCHIVE_FORMATS (install wheel s) =
     map (\<lambda>(key, func, rest).
            (key,
             if func = Stock_make_tarball then Make_tarball644 (install_calls s)
             else if func = Stock_make_zipfile then Make_zipfile644 (install_calls s)
             else func,
             rest))
       (ARCHIVE_FORMATS s)"
    unfolding ARCHIVE_FORMATS_install
    by (rule map_cong [OF refl]) (auto simp add: patch_format_cases)
  then show ?thesis by (simp only: install_funpow) simp
qed

subsection \<open>Scope restoration\<close>

lemma monkeypatch_restores:
  assumes "module_dict s module name = Some orig_func"
  shows "module_dict (snd (monkeypatch module name func body s)) module name = Some orig_func"
  using assms
  by (auto simp add: monkeypatch_def getattr_module_def setattr_module_def setattr_object_def
      Let_def split: prod.splits sum.splits pyobj.splits)

lemma monkeypatch_result:
  assumes "module_dict s module name = Some orig_func"
  shows "fst (monkeypatch module name (Function f) body s) =
         fst (body (setattr_module module name (Function f) s))"
  using assms
  by (auto simp add: monkeypatch_def getattr_module_def setattr_object_def
      Let_def split: prod.splits sum.splits)

lemma monkeypatch_missing_attribute:
  assumes "module_dict s module name = None"
  shows "monkeypatch module name func body s = (Inl AttributeError, s)"
  using assms by (simp add: monkeypatch_def getattr_module_def)

text \<open>
  C3: for every module, attribute name, replacement and wrapped operation, when the
  module has the attribute, the attribute holds its original value again after the
  scope, whatever the wrapped operation did to the state and whether it returned or
  raised. With a function as the replacement, the operation runs with the replacement
  installed and its result or exception is the outcome of the scope.
\<close>

theorem monkeypatch_restores_original:
  assumes "module_dict s module name = Some orig_func"
  shows "module_dict (snd (monkeypatch module name func body s)) module name = Some orig_func \<and>
         (\<forall>f. func = Function f \<longrightarrow>
            fst (monkeypatch module name func body s) =
            fst (body (setattr_module module name func s)))"
proof (intro conjI allI impI)
  show "module_dict (snd (monkeypatch module name func body s)) module name = Some orig_func"
    by (rule monkeypatch_restores [OF assms])
next
  fix f
  assume "func = Function f"
  then show "fst (monkeypatch module name func body s) =
             fst (body (setattr_module module name func s))"
    by (simp add: monkeypatch_result [OF assms])
qed

theorem monkeypatch_restores_original_witness:
  "module_dict example_interp Os_module ''listdir'' = Some (Function ''posix.listdir'') \<and>
   module_dict
     (snd (monkeypatch Os_module ''listdir'' (Function ''os_listdir'')
             (\<lambda>s. (Inl OSError :: pyerror + unit, s)) example_interp))
     Os_module ''listdir'' = Some (Function ''posix.listdir'') \<and>
   fst (monkeypatch Os_module ''listdir'' (Function ''os_listdir'')
          (\<lambda>s. (Inl OSError :: pyerror + unit, s)) example_interp) = Inl OSError \<and>
   module_dict
     (snd (monkeypatch Os_module ''listdir'' (Function ''os_listdir'')
             (\<lambda>s. (Inr (module_dict s Os_module ''listdir''), s)) example_interp))
     Os_module ''listdir'' = Some (Function ''posix.listdir'') \<and>
   fst (monkeypatch Os_module ''listdir'' (Function ''os_listdir'')
          (\<lambda>s. (Inr (module_dict s Os_module ''listdir''), s)) example_interp) =
     Inr (Some (Function ''os_listdir''))"
proof -
  have h: "module_dict example_interp Os_module ''listdir'' = Some (Function ''posix.listdir'')"
    by (simp add: example_interp_def)
  show ?thesis
    using h
      monkeypatch_restores_original
        [OF h, where func = "Function ''os_listdir''"
           and body = "\<lambda>s. (Inl OSError :: pyerror + unit, s)"]
      monkeypatch_restores_original
        [OF h, where func = "Function ''os_listdir''"
           and body = "\<lambda>s. (Inr (module_dict s Os_module ''listdir''), s)"]
    by (simp add: setattr_module_def)
qed

subsection \<open>The tar dialect\<close>

lemma make_tarball_sys_modules:
  "sys_modules (snd (make_tarball builder s)) = sys_modules s"
  by (simp add: make_tarball_def Let_def split: prod.splits)

lemma make_tarball_runs_builder:
  assumes "module_dict s Os_module ''listdir'' = Some f1"
      and "module_dict s Os_module ''lstat'' = Some f2"
  shows "\<exists>s_in. fst (make_tarball builder s) = fst (builder s_in) \<and>
           tarfile_open_format s_in = Some USTAR_FORMAT \<and>
           module_dict s_in Os_module ''listdir'' = Some (Function ''os_listdir'') \<and>
           module_dict s_in Os_module ''lstat'' = Some (Function ''os_lstat'')"
proof -
  obtain m s1 where a: "ModuleType ''tarfile644'' s = (m, s1)" by force
  define s2 where "s2 = (setattr_module m ''open'' (Tar_open TarFile644) s1)
     \<lparr>sys_modules :=
        (sys_modules (setattr_module m ''open'' (Tar_open TarFile644) s1))(''tarfile'' \<mapsto> m)\<rparr>"
  define s3 where "s3 = setattr_module Os_module ''listdir'' (Function ''os_listdir'') s2"
  define s4 where "s4 = setattr_module Os_module ''lstat'' (Function ''os_lstat'') s3"
  have m: "m = New_module (next_module s)"
    using a by (simp add: ModuleType_def Let_def)
  have l2: "module_dict s2 Os_module ''listdir'' = Some f1"
    using a assms(1) by (auto simp add: s2_def ModuleType_def Let_def setattr_module_def)
  have l3: "module_dict s3 Os_module ''lstat'' = Some f2"
    using a assms(2) by (auto simp add: s3_def s2_def ModuleType_def Let_def setattr_module_def)
  have "fst (make_tarball builder s) =
        fst (monkeypatch Os_module ''listdir'' (Function ''os_listdir'')
               (monkeypatch Os_module ''lstat'' (Function ''os_lstat'') builder) s2)"
    using a by (simp add: make_tarball_def Let_def s2_def split: prod.splits)
  also have "\<dots> = fst (monkeypatch Os_module ''lstat'' (Function ''os_lstat'') builder s3)"
    unfolding s3_def by (rule monkeypatch_result [OF l2])
  also have "\<dots> = fst (builder s4)"
    unfolding s4_def by (rule monkeypatch_result [OF l3])
  finally have r: "fst (make_tarball builder s) = fst (builder s4)" .
  have "tarfile_open_format s4 = Some USTAR_FORMAT"
    by (simp add: tarfile_open_format_def s4_def s3_def s2_def setattr_module_def m TarFile644_def)
  moreover have "module_dict s4 Os_module ''listdir'' = Some (Function ''os_listdir'')"
    by (simp add: s4_def s3_def setattr_module_def)
  moreover have "module_dict s4 Os_module ''lstat'' = Some (Function ''os_lstat'')"
    by (simp add: s4_def setattr_module_def)
  ultimately show ?thesis using r by blast
qed

text \<open>
  C8: when \<^verbatim>\<open>os\<close> has its primitives \<^verbatim>\<open>listdir\<close> and \<^verbatim>\<open>lstat\<close>, the normalised tar
  builder runs the stock builder once, in a state where \<^verbatim>\<open>tarfile.open\<close> is the method
  of \<open>TarFile644\<close>, whose format is ustar, and where the two primitives are replaced; its
  outcome is the outcome of the stock builder there. After the call \<^verbatim>\<open>sys.modules\<close> is
  the table it was before.
\<close>

theorem make_tarball_uses_ustar:
  assumes "module_dict s Os_module ''listdir'' = Some f1"
      and "module_dict s Os_module ''lstat'' = Some f2"
  shows "(\<exists>s_in. fst (make_tarball builder s) = fst (builder s_in) \<and>
            tarfile_open_format s_in = Some USTAR_FORMAT \<and>
            module_dict s_in Os_module ''listdir'' = Some (Function ''os_listdir'') \<and>
            module_dict s_in Os_module ''lstat'' = Some (Function ''os_lstat'')) \<and>
         format TarFile644 = USTAR_FORMAT \<and>
         sys_modules (snd (make_tarball builder s)) = sys_modules s"
  using make_tarball_runs_builder [OF assms, of builder] make_tarball_sys_modules [of builder s]
  by (simp add: TarFile644_def)

text \<open>
  The witness runs a builder that reports the format of the writer it would open: under
  the normalised builder it reports ustar, although the stock module of the state
  writes the pax format.
\<close>

theorem make_tarball_uses_ustar_witness:
  "module_dict example_interp Os_module ''listdir'' = Some (Function ''posix.listdir'') \<and>
   module_dict example_interp Os_module ''lstat'' = Some (Function ''posix.lstat'') \<and>
   tarfile_open_format example_interp = Some PAX_FORMAT \<and>
   fst (make_tarball (\<lambda>s. (Inr (tarfile_open_format s), s)) example_interp) =
     Inr (Some USTAR_FORMAT) \<and>
   sys_modules (snd (make_tarball (\<lambda>s. (Inr (tarfile_open_format s), s)) example_interp)) =
     sys_modules example_interp"
proof -
  have h1: "module_dict example_interp Os_module ''listdir'' = Some (Function ''posix.listdir'')"
    and h2: "module_dict example_interp Os_module ''lstat'' = Some (Function ''posix.lstat'')"
    and p: "tarfile_open_format example_interp = Some PAX_FORMAT"
    by (simp_all add: example_interp_def tarfile_open_format_def)
  show ?thesis
    using h1 h2 p
      make_tarball_uses_ustar [OF h1 h2, where builder = "\<lambda>s. (Inr (tarfile_open_format s), s)"]
    by auto
qed

subsection \<open>Sorted traversal\<close>

lemma same_tree_is_dir: "same_tree t1 t2 \<Longrightarrow> is_dir t1 = is_dir t2"
  by (cases t1; cases t2) simp_all

lemma same_tree_names:
  assumes "same_tree (Dir es1) (Dir es2)"
  shows "set (map fst es1) = set (map fst es2)"
proof -
  have d1: "distinct (map fst es1)" and d2: "distinct (map fst es2)"
    and len: "length es1 = length es2" using assms by simp_all
  have sub: "set (map fst es1) \<subseteq> set (map fst es2)"
  proof
    fix n assume "n \<in> set (map fst es1)"
    then obtain t where "(n, t) \<in> set es1" by auto
    with assms obtain t2 where "map_of es2 n = Some t2"
      by (auto simp add: list_all_iff split: option.splits)
    then show "n \<in> set (map fst es2)" by (metis map_of_SomeD fst_conv image_eqI set_map)
  qed
  have "card (set (map fst es1)) = length (map fst es1)"
    by (rule distinct_card [OF d1])
  moreover have "card (set (map fst es2)) = length (map fst es2)"
    by (rule distinct_card [OF d2])
  ultimately have "card (set (map fst es1)) = card (set (map fst es2))"
    using len by simp
  with sub show ?thesis by (intro card_subset_eq) simp_all
qed

lemma same_tree_lookup:
  assumes "same_tree (Dir es1) (Dir es2)"
  shows "rel_option same_tree (map_of es1 n) (map_of es2 n)"
proof (cases "map_of es1 n")
  case None
  then have "n \<notin> set (map fst es1)" by (simp add: map_of_eq_None_iff)
  then have "n \<notin> set (map fst es2)" using same_tree_names [OF assms] by simp
  then have "map_of es2 n = None" by (simp add: map_of_eq_None_iff)
  with None show ?thesis by simp
next
  case (Some t1)
  then have "(n, t1) \<in> set es1" by (rule map_of_SomeD)
  with assms obtain t2 where "map_of es2 n = Some t2" "same_tree t1 t2"
    by (auto simp add: list_all_iff split: option.splits)
  with Some show ?thesis by simp
qed

lemma set_scandir:
  assumes "distinct (map fst es)"
  shows "set (fst (scandir es)) = {n. \<exists>t. map_of es n = Some t \<and> is_dir t}"
    and "set (snd (scandir es)) = {n. \<exists>t. map_of es n = Some t \<and> \<not> is_dir t}"
  using assms by (auto simp add: scandir_def image_iff)

lemma distinct_scandir:
  assumes "distinct (map fst es)"
  shows "distinct (fst (scandir es))" and "distinct (snd (scandir es))"
  using assms by (simp_all add: scandir_def distinct_map_filter)

lemma same_tree_scandir:
  assumes "same_tree (Dir es1) (Dir es2)"
  shows "mset (fst (scandir es1)) = mset (fst (scandir es2))"
    and "mset (snd (scandir es1)) = mset (snd (scandir es2))"
proof -
  have d1: "distinct (map fst es1)" and d2: "distinct (map fst es2)" using assms by simp_all
  have r: "rel_option same_tree (map_of es1 n) (map_of es2 n)" for n
    by (rule same_tree_lookup [OF assms])
  have e: "(\<exists>t. map_of es1 n = Some t \<and> is_dir t) = (\<exists>t. map_of es2 n = Some t \<and> is_dir t)"
          "(\<exists>t. map_of es1 n = Some t \<and> \<not> is_dir t) = (\<exists>t. map_of es2 n = Some t \<and> \<not> is_dir t)" for n
    using r [of n] by (cases rule: option.rel_cases; use same_tree_is_dir in auto)+
  have "set (fst (scandir es1)) = set (fst (scandir es2))"
    by (simp add: set_scandir [OF d1] set_scandir [OF d2] e)
  then show "mset (fst (scandir es1)) = mset (fst (scandir es2))"
    using distinct_scandir [OF d1] distinct_scandir [OF d2]
    by (simp add: set_eq_iff_mset_eq_distinct)
  have "set (snd (scandir es1)) = set (snd (scandir es2))"
    by (simp add: set_scandir [OF d1] set_scandir [OF d2] e)
  then show "mset (snd (scandir es1)) = mset (snd (scandir es2))"
    using distinct_scandir [OF d1] distinct_scandir [OF d2]
    by (simp add: set_eq_iff_mset_eq_distinct)
qed

lemma sort_mset_cong: "mset xs = mset ys \<Longrightarrow> sort xs = sort (ys :: 'a :: linorder list)"
  by (rule properties_for_sort) simp_all


text \<open>One step of the walk, with the two lists as the consumer leaves them.\<close>

lemma walk_Dir:
  "walk topdown consumer dirpath (Dir entries) =
     (if topdown then
        (dirpath, fst (consumer (scandir entries)), snd (consumer (scandir entries))) #
        concat (map (\<lambda>dirname.
                  case map_of entries dirname of
                    Some (Dir sub) \<Rightarrow> walk topdown consumer (join dirpath dirname) (Dir sub)
                  | _ \<Rightarrow> [])
                (fst (consumer (scandir entries))))
      else
        concat (map (\<lambda>dirname.
                  case map_of entries dirname of
                    Some (Dir sub) \<Rightarrow> walk topdown consumer (join dirpath dirname) (Dir sub)
                  | _ \<Rightarrow> [])
                (fst (scandir entries))) @
        [(dirpath, fst (consumer (scandir entries)), snd (consumer (scandir entries)))])"
proof -
  obtain dirs nondirs where s: "scandir entries = (dirs, nondirs)" by force
  obtain dirs' nondirs' where c: "consumer (dirs, nondirs) = (dirs', nondirs')" by force
  show ?thesis
    by (subst walk.simps) (simp only: s c Let_def split_conv fst_conv snd_conv)
qed

lemma os_walk_sorted:
  "item \<in> set (os_walk topdown dirpath t) \<Longrightarrow>
   sorted (fst (snd item)) \<and> sorted (snd (snd item))"
proof (induction t arbitrary: dirpath)
  case File
  then show ?case by (simp add: os_walk_def walk.simps(2))
next
  case (Dir es)
  let ?c = "\<lambda>(dirnames, filenames).
              (sort dirnames, sort (filenames :: string list)) :: string list \<times> string list"
  let ?d = "\<lambda>dirname. case map_of es dirname of
               Some (Dir sub) \<Rightarrow> walk topdown ?c (join dirpath dirname) (Dir sub)
             | _ \<Rightarrow> []"
  have sub: "sorted (fst (snd item)) \<and> sorted (snd (snd item))" if "item \<in> set (?d d)" for d
  proof (cases "map_of es d")
    case None
    with that show ?thesis by simp
  next
    case (Some u)
    then have m: "(d, u) \<in> set es" by (rule map_of_SomeD)
    show ?thesis
    proof (cases u)
      case File
      with that Some show ?thesis by simp
    next
      case (Dir sub)
      with that Some have "item \<in> set (os_walk topdown (join dirpath d) u)"
        by (simp add: os_walk_def)
      then show ?thesis using Dir.IH [of "(d, u)" u "join dirpath d"] m by simp
    qed
  qed
  have first: "sorted (fst (?c (scandir es))) \<and> sorted (snd (?c (scandir es)))"
    by (simp add: case_prod_beta)
  from Dir.prems consider "item = (dirpath, fst (?c (scandir es)), snd (?c (scandir es)))"
    | d where "item \<in> set (?d d)"
    unfolding os_walk_def walk_Dir [of topdown ?c dirpath es] by (auto split: if_splits)
  then show ?case
  proof cases
    case 1
    with first show ?thesis by simp
  next
    case 2
    then show ?thesis by (rule sub)
  qed
qed

lemma os_walk_same_tree:
  "same_tree t1 t2 \<Longrightarrow> os_walk True dirpath t1 = os_walk True dirpath t2"
proof (induction t1 arbitrary: t2 dirpath)
  case File
  then show ?case by (cases t2) (simp_all add: os_walk_def walk.simps(2))
next
  case (Dir es1)
  let ?c = "\<lambda>(dirnames, filenames).
              (sort dirnames, sort (filenames :: string list)) :: string list \<times> string list"
  let ?d = "\<lambda>es dirname. case map_of es dirname of
               Some (Dir sub) \<Rightarrow> walk True ?c (join dirpath dirname) (Dir sub)
             | _ \<Rightarrow> []"
  from Dir.prems obtain es2 where t2: "t2 = Dir es2" by (cases t2) simp_all
  with Dir.prems have st: "same_tree (Dir es1) (Dir es2)" by simp
  have "sort (fst (scandir es1)) = sort (fst (scandir es2))"
    and "sort (snd (scandir es1)) = sort (snd (scandir es2))"
    by (rule sort_mset_cong, rule same_tree_scandir [OF st])+
  then have c: "?c (scandir es1) = ?c (scandir es2)"
    by (simp add: case_prod_beta)
  have "?d es1 d = ?d es2 d" for d
  proof (cases "map_of es1 d")
    case None
    with same_tree_lookup [OF st, of d] show ?thesis by simp
  next
    case (Some u1)
    with same_tree_lookup [OF st, of d]
    obtain u2 where u2: "map_of es2 d = Some u2" "same_tree u1 u2"
      by (auto simp add: option_rel_Some1)
    from Some have "(d, u1) \<in> set es1" by (rule map_of_SomeD)
    then have "os_walk True (join dirpath d) u1 = os_walk True (join dirpath d) u2"
      using Dir.IH [of "(d, u1)" u1 u2 "join dirpath d"] u2(2) by simp
    then show ?thesis using Some u2
      by (cases u1; cases u2) (simp_all add: os_walk_def)
  qed
  then have d: "?d es1 = ?d es2" by (rule ext)
  show ?case
    unfolding t2 os_walk_def walk_Dir [of True ?c dirpath es1] walk_Dir [of True ?c dirpath es2]
    using c d by simp
qed

text \<open>
  C2, as stated: the substituted \<^verbatim>\<open>listdir\<close> returns the names sorted, the substituted
  \<^verbatim>\<open>walk\<close> yields sorted lists at every level, and hence two orders of the same entries
  give the same traversal sequence. The last part fails for a walk from the bottom,
  which a caller gets by passing \<^verbatim>\<open>topdown=False\<close>: \<^verbatim>\<open>os_walk\<close> passes its arguments on,
  the generator has descended before the lists are sorted, and the directories come in
  the order of the file system. The two trees below hold the same entries; the walk
  from the bottom visits \<open>root/z\<close> first in one and \<open>root/a\<close> first in the other.
\<close>

theorem sorted_traversal_counterexample:
  "same_tree example_tree example_tree_permuted \<and>
   os_walk False ''root'' example_tree =
     [(''root/z'', [], [''x'', ''y'']),
      (''root/a'', [], [''c.txt'']),
      (''root'', [''a'', ''z''], [''b.txt''])] \<and>
   os_walk False ''root'' example_tree_permuted =
     [(''root/a'', [], [''c.txt'']),
      (''root/z'', [], [''x'', ''y'']),
      (''root'', [''a'', ''z''], [''b.txt''])] \<and>
   os_walk False ''root'' example_tree \<noteq> os_walk False ''root'' example_tree_permuted"
  by code_simp

text \<open>
  C2, amended: the substituted \<^verbatim>\<open>listdir\<close> returns the names that the original returns,
  sorted ascending, so two listings of the same names give the same result; every
  triple that the substituted \<^verbatim>\<open>walk\<close> yields, from the top or from the bottom, has its
  directory names and its file names sorted ascending, the first triple of a walk from
  the top holding the names of the directory itself; and the walk from the top, which
  is the default, yields the same sequence for two trees that hold the same entries in
  different orders.
\<close>

theorem sorted_traversal:
  "(orig_os_listdir path = Inr names \<longrightarrow>
      os_listdir orig_os_listdir path = Inr (sort names) \<and>
      sorted (sort names) \<and> mset (sort names) = mset names) \<and>
   (orig_a path = Inr names_a \<and> orig_b path = Inr names_b \<and> mset names_a = mset names_b \<longrightarrow>
      os_listdir orig_a path = os_listdir orig_b path) \<and>
   (\<forall>(dirpath', dirnames, filenames) \<in> set (os_walk topdown dirpath tree).
      sorted dirnames \<and> sorted filenames) \<and>
   (\<exists>rest. os_walk True dirpath (Dir entries) =
      (dirpath, sort (fst (scandir entries)), sort (snd (scandir entries))) # rest) \<and>
   (same_tree tree_a tree_b \<longrightarrow> os_walk True dirpath tree_a = os_walk True dirpath tree_b)"
proof (intro conjI impI)
  assume "orig_os_listdir path = Inr names"
  then show "os_listdir orig_os_listdir path = Inr (sort names)"
    by (simp add: os_listdir_def)
next
  show "sorted (sort names)" by simp
next
  show "mset (sort names) = mset names" by simp
next
  assume "orig_a path = Inr names_a \<and> orig_b path = Inr names_b \<and> mset names_a = mset names_b"
  then show "os_listdir orig_a path = os_listdir orig_b path"
    by (simp add: os_listdir_def sort_mset_cong [of names_a names_b])
next
  show "\<forall>(dirpath', dirnames, filenames) \<in> set (os_walk topdown dirpath tree).
          sorted dirnames \<and> sorted filenames"
    using os_walk_sorted [of _ topdown dirpath tree] by fastforce
next
  show "\<exists>rest. os_walk True dirpath (Dir entries) =
      (dirpath, sort (fst (scandir entries)), sort (snd (scandir entries))) # rest"
    unfolding os_walk_def
      walk_Dir [of True "\<lambda>(dirnames, filenames). (sort dirnames, sort filenames)" dirpath entries]
    by (simp add: case_prod_beta)
next
  assume "same_tree tree_a tree_b"
  then show "os_walk True dirpath tree_a = os_walk True dirpath tree_b"
    by (rule os_walk_same_tree)
qed

theorem sorted_traversal_witness:
  "os_listdir (\<lambda>p. Inr [''b.txt'', ''z'', ''a'']) ''root'' = Inr [''a'', ''b.txt'', ''z''] \<and>
   os_listdir (\<lambda>p. Inr [''a'', ''z'', ''b.txt'']) ''root'' = Inr [''a'', ''b.txt'', ''z''] \<and>
   example_tree \<noteq> example_tree_permuted \<and>
   same_tree example_tree example_tree_permuted \<and>
   os_walk True ''root'' example_tree =
     [(''root'', [''a'', ''z''], [''b.txt'']),
      (''root/a'', [], [''c.txt'']),
      (''root/z'', [], [''x'', ''y''])] \<and>
   os_walk True ''root'' example_tree_permuted =
     [(''root'', [''a'', ''z''], [''b.txt'']),
      (''root/a'', [], [''c.txt'']),
      (''root/z'', [], [''x'', ''y''])]"
proof -
  have s: "sort [''b.txt'', ''z'', ''a''] = [''a'', ''b.txt'', ''z'']"
    by code_simp
  have m: "mset [''b.txt'', ''z'', ''a''] = mset [''a'', ''z'', ''b.txt'']"
    by (simp add: add_mset_commute)
  have ne: "example_tree \<noteq> example_tree_permuted"
    by (simp add: example_tree_def example_tree_permuted_def)
  have st: "same_tree example_tree example_tree_permuted"
    by code_simp
  have w: "os_walk True ''root'' example_tree =
     [(''root'', [''a'', ''z''], [''b.txt'']),
      (''root/a'', [], [''c.txt'']),
      (''root/z'', [], [''x'', ''y''])]"
    by code_simp
  note t = sorted_traversal
    [where orig_os_listdir = "\<lambda>p. Inr [''b.txt'', ''z'', ''a'']" and path = "''root''"
       and names = "[''b.txt'', ''z'', ''a'']"
       and orig_a = "\<lambda>p. Inr [''b.txt'', ''z'', ''a'']"
       and orig_b = "\<lambda>p. Inr [''a'', ''z'', ''b.txt'']"
       and names_a = "[''b.txt'', ''z'', ''a'']" and names_b = "[''a'', ''z'', ''b.txt'']"
       and tree_a = example_tree and tree_b = example_tree_permuted
       and dirpath = "''root''" and topdown = True and tree = example_tree
       and entries = "[]"]
  from t have "os_listdir (\<lambda>p. Inr [''b.txt'', ''z'', ''a'']) ''root'' =
      Inr (sort [''b.txt'', ''z'', ''a''])"
    by blast
  moreover from t m have "os_listdir (\<lambda>p. Inr [''b.txt'', ''z'', ''a'']) ''root'' =
      os_listdir (\<lambda>p. Inr [''a'', ''z'', ''b.txt'']) ''root''"
    by blast
  moreover from t st have "os_walk True ''root'' example_tree =
      os_walk True ''root'' example_tree_permuted"
    by blast
  ultimately show ?thesis using s ne st w by simp
qed

end
